theory Spec2Isabelle
  imports Main "HOL-Library.Multiset" "HOL-Library.Product_Lexorder"
begin

section \<open>Data model\<close>

text \<open>
  The records follow \<^verbatim>\<open>types.ts\<close> and the interfaces declared in the agent file.
  JavaScript numbers that hold timestamps, salts, hashes and move values are modelled
  as \<open>int\<close>; an optional field is an \<open>option\<close>.
\<close>

record Timestamps =
  start :: int
  end_time :: "int option"

record ChallengeData =
  duel_id :: string
  table_id :: string
  premise :: string
  quote :: string
  address_a :: string
  address_b :: string
  duelist_id_a :: string
  duelist_id_b :: string
  state :: string
  winner :: "string option"
  timestamps :: Timestamps

text \<open>\<^verbatim>\<open>interface Challenge extends ChallengeData { duelist_id: string }\<close>\<close>

record Challenge = ChallengeData +
  duelist_id :: string

text \<open>One entry of \<^verbatim>\<open>PistolsState.committedMoves\<close>.\<close>

record CommittedMoves =
  salt :: int
  moves :: "int list"
  hash :: int

text \<open>
  \<^verbatim>\<open>PistolsState\<close>, the agent memory. The fields that hold duelists, packs, the duelist
  cache and the duel history are left out: none of the handlers modelled below reads or
  writes them. \<^verbatim>\<open>committedMoves\<close> is an object used as a dictionary keyed by duel id:
  the map holds its own properties, storing under a key makes an own property, and
  reading a key goes through \<open>get_property\<close> below, which also finds the members the
  object inherits from \<^verbatim>\<open>Object.prototype\<close>.
\<close>

record PistolsState =
  goal :: string
  tasks :: "string list"
  currentTask :: "string option"
  playerAddress :: string
  duelistId :: string
  activeChallenge :: string
  activeChallenges :: "Challenge list"
  challengeState :: string
  isRegistered :: bool
  starterPackClaimed :: bool
  committedMoves :: "string \<rightharpoonup> CommittedMoves"

section \<open>The external collaborators\<close>

text \<open>
  A call of \<^verbatim>\<open>starknetChain.write\<close>: the contract, the entrypoint and the calldata, whose
  items are strings, (for the reveal) the array of move values, or \<^verbatim>\<open>undefined\<close> where the
  reveal read the moves of a value that has none.
\<close>

datatype calldata_item = Str string | Nums "int list" | Undef

record write_call =
  contractAddress :: string
  entrypoint :: string
  calldata :: "calldata_item list"

text \<open>
  What the write gives back: it throws (the message of the error), or it returns a
  value whose \<^verbatim>\<open>events\<close> field is absent (as on an error object returned in place of a
  receipt) or a list of events (each event is its data).
\<close>

type_synonym event = "string list"

datatype write_response = Throws string | Returns "event list option"

text \<open>
  The world a handler runs in: the agent memory, and the log of the external writes
  submitted so far, each with the agent memory as it was at the moment of submission.
  The log is what lets a statement speak about the order of local stores and external
  submissions.
\<close>

record world =
  mem :: PistolsState
  submitted :: "(write_call \<times> PistolsState) list"

text \<open>
  The chain answers a call; the call and the memory at that moment are logged.
\<close>

definition starknetChain_write ::
  "(write_call \<Rightarrow> write_response) \<Rightarrow> write_call \<Rightarrow> world \<Rightarrow> write_response \<times> world" where
  "starknetChain_write chain c w = (chain c, w\<lparr>submitted := submitted w @ [(c, mem w)]\<rparr>)"

text \<open>
  The functions and constants the handlers take from the Pistols SDK and the Dojo
  manifest, as parameters: \<^verbatim>\<open>make_moves_hash\<close>, \<^verbatim>\<open>bigintToHex\<close>, and the addresses of
  the game and duel contracts. \<open>bigintToHex_undefined\<close> is what \<^verbatim>\<open>bigintToHex(undefined)\<close>
  does: it throws (\<open>Inl\<close>, the message of the error) or returns a string (\<open>Inr\<close>).
\<close>

record sdk =
  make_moves_hash :: "int \<Rightarrow> int list \<Rightarrow> int"
  bigintToHex :: "int \<Rightarrow> string"
  bigintToHex_undefined :: "string + string"
  game_contract :: string
  duel_contract :: string

text \<open>
  The values of \<^verbatim>\<open>constants.ChallengeState\<close> (a string enum of the SDK; the agent file
  itself compares a state with the literal \<^verbatim>\<open>'Draw'\<close>).
\<close>

definition InProgress :: string where "InProgress = ''InProgress''"
definition Awaiting :: string where "Awaiting = ''Awaiting''"
definition Resolved :: string where "Resolved = ''Resolved''"
definition Draw :: string where "Draw = ''Draw''"
definition Refused :: string where "Refused = ''Refused''"
definition Withdrawn :: string where "Withdrawn = ''Withdrawn''"
definition Expired :: string where "Expired = ''Expired''"
definition Null :: string where "Null = ''Null''"


section \<open>Results of the handlers\<close>

text \<open>
  Every handler returns \<^verbatim>\<open>{success: true, ...}\<close> or
  \<^verbatim>\<open>{success: false, error, message}\<close>.
\<close>

datatype 'a action_result =
  is_success: Success (payload: 'a) | Failure (error: string) (message: string)

record commit_success =
  commit_message :: string
  commit_salt :: string
  commit_moves_shown :: "int list"
  commit_hash :: string
  commit_transaction :: write_response

text \<open>
  The moves shown by a successful reveal are \<^verbatim>\<open>storedMoves.moves\<close>: the stored list, or
  \<^verbatim>\<open>undefined\<close> (\<open>None\<close>) when the value found under the duel id has no moves.
\<close>

record reveal_success =
  reveal_message :: string
  reveal_salt :: string
  reveal_moves_shown :: "int list option"
  reveal_transaction :: write_response

record accept_success =
  accept_message :: string
  accept_transaction :: write_response

text \<open>\<^verbatim>\<open>response.events && response.events.length > 0\<close>\<close>

definition has_events :: "write_response \<Rightarrow> bool" where
  "has_events r = (case r of Throws _ \<Rightarrow> False
                   | Returns None \<Rightarrow> False
                   | Returns (Some es) \<Rightarrow> length es > 0)"

section \<open>commit_moves\<close>

definition commit_call :: "sdk \<Rightarrow> string \<Rightarrow> string \<Rightarrow> int \<Rightarrow> write_call" where
  "commit_call e callDuelistId callDuelId hashResult =
     \<lparr>contractAddress = game_contract e, entrypoint = ''commit_moves'',
      calldata = [Str callDuelistId, Str callDuelId, Str (bigintToHex e hashResult)]\<rparr>"

text \<open>
  The handler of \<^verbatim>\<open>commit_moves\<close>. \<open>saltValue\<close> is the value of
  \<^verbatim>\<open>Math.floor(Math.random() * 0xFFFFFFFF)\<close> drawn in this call. The statements run in
  the order of the source: the hash is computed, the write is submitted, and only when
  the response carries events is the secret stored; otherwise the handler throws, and the
  \<^verbatim>\<open>catch\<close> turns every error into a failure result.
\<close>

definition commit_moves ::
  "sdk \<Rightarrow> (write_call \<Rightarrow> write_response) \<Rightarrow> int \<Rightarrow> string \<Rightarrow> string \<Rightarrow> int list \<Rightarrow> world
     \<Rightarrow> world \<times> commit_success action_result" where
  "commit_moves e chain saltValue callDuelistId callDuelId callMoves w =
     (let saltBigInt = saltValue;
          saltHex = bigintToHex e saltBigInt;
          hashResult = make_moves_hash e saltBigInt callMoves;
          hashResultHex = bigintToHex e hashResult;
          (commitResponse, w1) =
             starknetChain_write chain (commit_call e callDuelistId callDuelId hashResult) w
      in case commitResponse of
           Throws err \<Rightarrow> (w1, Failure err ''Failed to commit moves'')
         | Returns ev \<Rightarrow>
             if has_events commitResponse then
               (w1\<lparr>mem := (mem w1)\<lparr>
                    activeChallenge := callDuelId,
                    duelistId := callDuelistId,
                    committedMoves := (committedMoves (mem w1))(callDuelId \<mapsto>
                       \<lparr>salt = saltBigInt, moves = callMoves, hash = hashResult\<rparr>)\<rparr>\<rparr>,
                Success \<lparr>commit_message = ''Moves successfully committed'',
                         commit_salt = saltHex,
                         commit_moves_shown = callMoves,
                         commit_hash = hashResultHex,
                         commit_transaction = commitResponse\<rparr>)
             else
               (w1, Failure ''Commit transaction did not emit events''
                            ''Failed to commit moves''))"

section \<open>reveal_moves\<close>

definition reveal_call :: "sdk \<Rightarrow> string \<Rightarrow> string \<Rightarrow> CommittedMoves \<Rightarrow> write_call" where
  "reveal_call e callDuelistId callDuelId storedMoves =
     \<lparr>contractAddress = game_contract e, entrypoint = ''reveal_moves'',
      calldata = [Str callDuelistId, Str callDuelId,
                  Str (bigintToHex e (salt storedMoves)), Nums (moves storedMoves)]\<rparr>"

text \<open>
  \<^verbatim>\<open>state.committedMoves[duelId]\<close> on an object created as \<^verbatim>\<open>{}\<close>: an own property if
  there is one, otherwise the member of that name inherited from \<^verbatim>\<open>Object.prototype\<close>
  (a function, or for \<^verbatim>\<open>__proto__\<close> the prototype itself), otherwise \<^verbatim>\<open>undefined\<close>.
  An inherited member is truthy and has neither \<^verbatim>\<open>salt\<close> nor \<^verbatim>\<open>moves\<close>.
\<close>

definition Object_prototype_names :: "string list" where
  "Object_prototype_names =
     [''constructor'', ''__defineGetter__'', ''__defineSetter__'', ''hasOwnProperty'',
      ''__lookupGetter__'', ''__lookupSetter__'', ''isPrototypeOf'', ''propertyIsEnumerable'',
      ''toString'', ''valueOf'', ''__proto__'', ''toLocaleString'']"

datatype 'a lookup = Own 'a | Inherited | Absent

definition get_property :: "(string \<rightharpoonup> 'a) \<Rightarrow> string \<Rightarrow> 'a lookup" where
  "get_property obj key =
     (case obj key of
        Some v \<Rightarrow> Own v
      | None \<Rightarrow> if key \<in> set Object_prototype_names then Inherited else Absent)"

text \<open>The reveal call built from an inherited member: its moves are \<^verbatim>\<open>undefined\<close>.\<close>

definition inherited_reveal_call :: "sdk \<Rightarrow> string \<Rightarrow> string \<Rightarrow> string \<Rightarrow> write_call" where
  "inherited_reveal_call e callDuelistId callDuelId saltHex =
     \<lparr>contractAddress = game_contract e, entrypoint = ''reveal_moves'',
      calldata = [Str callDuelistId, Str callDuelId, Str saltHex, Undef]\<rparr>"

text \<open>
  The handler of \<^verbatim>\<open>reveal_moves\<close>. The guard \<^verbatim>\<open>if (!storedMoves)\<close> throws only when
  the lookup gives \<^verbatim>\<open>undefined\<close>. With an own entry the stored salt and moves are
  submitted, and the entry is deleted only when the response carries events. With an
  inherited member the handler goes past the guard: \<^verbatim>\<open>bigintToHex(storedMoves.salt)\<close> is
  \<^verbatim>\<open>bigintToHex(undefined)\<close> (first evaluated for the log line, before the write), the
  calldata end with that string and \<^verbatim>\<open>undefined\<close>, and \<^verbatim>\<open>delete\<close> of a key that is not
  an own property changes nothing.
\<close>

definition reveal_moves ::
  "sdk \<Rightarrow> (write_call \<Rightarrow> write_response) \<Rightarrow> string \<Rightarrow> string \<Rightarrow> world
     \<Rightarrow> world \<times> reveal_success action_result" where
  "reveal_moves e chain callDuelistId callDuelId w =
     (case get_property (committedMoves (mem w)) callDuelId of
        Absent \<Rightarrow> (w, Failure ''No committed moves found for this duel''
                               ''Failed to reveal moves'')
      | Own storedMoves \<Rightarrow>
          (let (revealResponse, w1) =
                 starknetChain_write chain (reveal_call e callDuelistId callDuelId storedMoves) w
           in case revealResponse of
                Throws err \<Rightarrow> (w1, Failure err ''Failed to reveal moves'')
              | Returns ev \<Rightarrow>
                  if has_events revealResponse then
                    (w1\<lparr>mem := (mem w1)\<lparr>
                         committedMoves := (committedMoves (mem w1))(callDuelId := None),
                         activeChallenge := callDuelId,
                         duelistId := callDuelistId\<rparr>\<rparr>,
                     Success \<lparr>reveal_message = ''Moves successfully revealed'',
                              reveal_salt = bigintToHex e (salt storedMoves),
                              reveal_moves_shown = Some (moves storedMoves),
                              reveal_transaction = revealResponse\<rparr>)
                  else
                    (w1, Failure ''Reveal transaction did not emit events''
                                 ''Failed to reveal moves''))
      | Inherited \<Rightarrow>
          (case bigintToHex_undefined e of
             Inl err \<Rightarrow> (w, Failure err ''Failed to reveal moves'')
           | Inr saltHex \<Rightarrow>
               (let (revealResponse, w1) =
                      starknetChain_write chain
                        (inherited_reveal_call e callDuelistId callDuelId saltHex) w
                in case revealResponse of
                     Throws err \<Rightarrow> (w1, Failure err ''Failed to reveal moves'')
                   | Returns ev \<Rightarrow>
                       if has_events revealResponse then
                         (w1\<lparr>mem := (mem w1)\<lparr>
                              committedMoves := (committedMoves (mem w1))(callDuelId := None),
                              activeChallenge := callDuelId,
                              duelistId := callDuelistId\<rparr>\<rparr>,
                          Success \<lparr>reveal_message = ''Moves successfully revealed'',
                                   reveal_salt = saltHex,
                                   reveal_moves_shown = None,
                                   reveal_transaction = revealResponse\<rparr>)
                       else
                         (w1, Failure ''Reveal transaction did not emit events''
                                      ''Failed to reveal moves''))))"

section \<open>accept_challenge\<close>

definition reply_duel_call :: "sdk \<Rightarrow> string \<Rightarrow> string \<Rightarrow> write_call" where
  "reply_duel_call e callDuelistId challengeId =
     \<lparr>contractAddress = duel_contract e, entrypoint = ''reply_duel'',
      calldata = [Str callDuelistId, Str challengeId, Str ''1'']\<rparr>"

text \<open>
  The handler of \<^verbatim>\<open>accept_challenge\<close>: its first statement after reading the call data
  is the external write; the agent memory is updated after the write returned.
\<close>

definition accept_challenge ::
  "sdk \<Rightarrow> (write_call \<Rightarrow> write_response) \<Rightarrow> string \<Rightarrow> string \<Rightarrow> world
     \<Rightarrow> world \<times> accept_success action_result" where
  "accept_challenge e chain callDuelistId challengeId w =
     (let (acceptResponse, w1) =
            starknetChain_write chain (reply_duel_call e callDuelistId challengeId) w
      in case acceptResponse of
           Throws err \<Rightarrow> (w1, Failure err ''Failed to accept challenge'')
         | Returns ev \<Rightarrow>
             (w1\<lparr>mem := (mem w1)\<lparr>
                  activeChallenge := challengeId,
                  duelistId := callDuelistId,
                  challengeState := InProgress,
                  activeChallenges :=
                    map (\<lambda>c. if duel_id c = challengeId
                             then c\<lparr>state := InProgress, duelist_id_b := callDuelistId\<rparr>
                             else c)
                        (activeChallenges (mem w1))\<rparr>\<rparr>,
              Success \<lparr>accept_message = ''Challenge successfully accepted'',
                       accept_transaction = acceptResponse\<rparr>))"

text \<open>
  The duelists that \<^verbatim>\<open>get_available_duelists\<close> counts as busy: both duelists of every
  challenge that is in progress (the handler queries the challenges in that state and
  adds \<^verbatim>\<open>duelist_id_a\<close> and \<^verbatim>\<open>duelist_id_b\<close> of each to the set).
\<close>

definition busyDuelists :: "'a ChallengeData_scheme list \<Rightarrow> string set" where
  "busyDuelists cs =
     (\<Union>c \<in> set (filter (\<lambda>c. state c = InProgress) cs). {duelist_id_a c, duelist_id_b c})"

section \<open>The move tuple of the specification\<close>

text \<open>
  The valid move tuple in the words of the specification: four values, a firing step
  1 to 10, a dodge step 1 to 10 distinct from the firing step, a tactic and a blade.
  The handlers never refer to it.
\<close>

definition spec_valid_moves :: "int list \<Rightarrow> bool" where
  "spec_valid_moves ms =
     (case ms of
        [fire, dodge, tactic, blade] \<Rightarrow>
          1 \<le> fire \<and> fire \<le> 10 \<and> 1 \<le> dodge \<and> dodge \<le> 10 \<and> fire \<noteq> dodge
      | _ \<Rightarrow> False)"

section \<open>Addresses\<close>

text \<open>
  \<^verbatim>\<open>String.prototype.toLowerCase\<close> on the characters an address is written with: the
  letters A to Z become a to z, every other character is kept.
\<close>

definition toLowerCase_char :: "char \<Rightarrow> char" where
  "toLowerCase_char c =
     (case map_of (zip ''ABCDEFGHIJKLMNOPQRSTUVWXYZ'' ''abcdefghijklmnopqrstuvwxyz'') c of
        Some l \<Rightarrow> l
      | None \<Rightarrow> c)"

text \<open>
  \<^verbatim>\<open>normalizeStarknetAddress\<close>: the empty string is returned as it is; otherwise a
  leading \<^verbatim>\<open>0x\<close> is removed, then the leading zeros (\<^verbatim>\<open>replace(/^0+/, '')\<close>), and
  \<^verbatim>\<open>0x\<close> is put in front of the rest in lower case.
\<close>

definition normalizeStarknetAddress :: "string \<Rightarrow> string" where
  "normalizeStarknetAddress address =
     (if address = [] then address
      else
        (let stripped = (if take 2 address = ''0x'' then drop 2 address else address);
             normalized = dropWhile (\<lambda>c. c = CHR ''0'') stripped
         in ''0x'' @ map toLowerCase_char normalized))"

section \<open>fetch_challenges\<close>

text \<open>
  \<^verbatim>\<open>queryPistolsAPI\<close> throws or returns a response. The two halves of the challenge
  query are absent (some link of \<^verbatim>\<open>result.data?.addressAChallenges?.edges\<close> is
  undefined) or the list of the nodes of the edges.
\<close>

datatype 'a api_result = ApiThrows string | ApiReturns 'a

record ChallengesResponse =
  addressAChallenges :: "ChallengeData list option"
  addressBChallenges :: "ChallengeData list option"

text \<open>\<^verbatim>\<open>{...edge.node, duelist_id: d}\<close>\<close>

definition with_duelist_id :: "ChallengeData \<Rightarrow> string \<Rightarrow> Challenge" where
  "with_duelist_id node d =
     \<lparr>duel_id = duel_id node, table_id = table_id node, premise = premise node,
      quote = quote node, address_a = address_a node, address_b = address_b node,
      duelist_id_a = duelist_id_a node, duelist_id_b = duelist_id_b node,
      state = state node, winner = winner node, timestamps = timestamps node,
      duelist_id = d\<rparr>"

text \<open>
  The comparator given to \<^verbatim>\<open>sort\<close>. A state that is not a key of \<^verbatim>\<open>statePriority\<close>
  has priority \<^verbatim>\<open>undefined\<close>, the difference is then \<^verbatim>\<open>NaN\<close> (here \<open>None\<close>), which
  is not \<^verbatim>\<open>0\<close> and is returned. \<^verbatim>\<open>x || 0\<close> on a number is \<open>or_zero\<close>.
\<close>

definition statePriority :: "string \<rightharpoonup> int" where
  "statePriority =
     map_of [(InProgress, 0), (Awaiting, 1), (Resolved, 2), (Draw, 3), (Refused, 4),
             (Withdrawn, 5), (Expired, 6), (Null, 7)]"

definition or_zero :: "int \<Rightarrow> int" where
  "or_zero x = (if x = 0 then 0 else x)"

definition compare_challenges :: "Challenge \<Rightarrow> Challenge \<Rightarrow> int option" where
  "compare_challenges a b =
     (case (statePriority (state a), statePriority (state b)) of
        (Some pa, Some pb) \<Rightarrow>
          (let priorityDiff = pa - pb in
           if priorityDiff \<noteq> 0 then Some priorityDiff
           else Some (or_zero (start (timestamps b)) - or_zero (start (timestamps a))))
      | _ \<Rightarrow> None)"

text \<open>
  \<^verbatim>\<open>Array.prototype.sort\<close> with a comparator: a comparator result of \<^verbatim>\<open>NaN\<close> counts
  as \<^verbatim>\<open>+0\<close>, and the sort is stable. For a consistent comparator the result is the one
  stable ordering, which this insertion sort computes (an element stays in front of the
  elements it does not compare greater than). For an inconsistent comparator the
  language leaves the order to the implementation; the comparator above is consistent on
  challenges whose state is one of \<open>ChallengeState_values\<close>, and the theorem about the
  order assumes that of the fetched challenges.
\<close>

definition SortCompare :: "('a \<Rightarrow> 'a \<Rightarrow> int option) \<Rightarrow> 'a \<Rightarrow> 'a \<Rightarrow> int" where
  "SortCompare comparefn x y = (case comparefn x y of None \<Rightarrow> 0 | Some v \<Rightarrow> v)"

fun sort_insert :: "('a \<Rightarrow> 'a \<Rightarrow> int option) \<Rightarrow> 'a \<Rightarrow> 'a list \<Rightarrow> 'a list" where
  "sort_insert comparefn x [] = [x]"
| "sort_insert comparefn x (y # ys) =
     (if SortCompare comparefn x y \<le> 0 then x # y # ys
      else y # sort_insert comparefn x ys)"

definition array_sort :: "('a \<Rightarrow> 'a \<Rightarrow> int option) \<Rightarrow> 'a list \<Rightarrow> 'a list" where
  "array_sort comparefn xs = foldr (sort_insert comparefn) xs []"

text \<open>A natural number in decimal, for the message of the result.\<close>

definition digit_char :: "nat \<Rightarrow> char" where
  "digit_char n = ''0123456789'' ! n"

fun show_nat :: "nat \<Rightarrow> string" where
  "show_nat n = (if n < 10 then [digit_char n] else show_nat (n div 10) @ [digit_char (n mod 10)])"

declare show_nat.simps [simp del]

record fetch_success =
  fetch_challenges_sorted :: "Challenge list"
  fetch_activeChallenges :: "Challenge list"
  fetch_message :: string

text \<open>
  The handler of \<^verbatim>\<open>fetch_challenges\<close>. The query is made for the normalized address.
  Spreading an absent half throws a \<^verbatim>\<open>TypeError\<close> (the first absent half, left to
  right; the text of the error is the engine's), which the \<^verbatim>\<open>catch\<close> turns into a
  failure. The agent memory is written only when at least
  one fetched challenge is active.
\<close>

definition fetch_challenges ::
  "(string \<Rightarrow> ChallengesResponse api_result) \<Rightarrow> string \<Rightarrow> world
     \<Rightarrow> world \<times> fetch_success action_result" where
  "fetch_challenges queryPistolsAPI callPlayerAddress w =
     (case queryPistolsAPI (normalizeStarknetAddress callPlayerAddress) of
        ApiThrows err \<Rightarrow> (w, Failure err ''Failed to fetch challenges'')
      | ApiReturns result \<Rightarrow>
          (case (addressAChallenges result, addressBChallenges result) of
             (Some edgesA, Some edgesB) \<Rightarrow>
               (let challengesAsA = map (\<lambda>node. with_duelist_id node (duelist_id_a node)) edgesA;
                    challengesAsB = map (\<lambda>node. with_duelist_id node (duelist_id_b node)) edgesB;
                    challenges = challengesAsA @ challengesAsB;
                    sortedChallenges = array_sort compare_challenges challenges;
                    active = filter (\<lambda>challenge. state challenge = InProgress \<or>
                                                   state challenge = Awaiting) sortedChallenges;
                    w' = (case active of
                            [] \<Rightarrow> w
                          | currentChallenge # _ \<Rightarrow>
                              w\<lparr>mem := (mem w)\<lparr>
                                  activeChallenges :=
                                    map (\<lambda>challenge. challenge\<lparr>duelist_id := duelist_id_a challenge\<rparr>)
                                        active,
                                  activeChallenge := duel_id currentChallenge,
                                  challengeState := state currentChallenge,
                                  duelistId :=
                                    (if state currentChallenge = InProgress
                                     then duelist_id_a currentChallenge
                                     else duelistId (mem w))\<rparr>\<rparr>)
                in (w', Success \<lparr>fetch_challenges_sorted = sortedChallenges,
                                 fetch_activeChallenges = active,
                                 fetch_message =
                                   ''Found '' @ show_nat (length challenges) @
                                   '' total challenges ('' @ show_nat (length active) @
                                   '' active)''\<rparr>))
           | (None, _) \<Rightarrow>
               (w, Failure ''challengesAsA is not iterable'' ''Failed to fetch challenges'')
           | (Some edgesA, None) \<Rightarrow>
               (w, Failure ''challengesAsB is not iterable'' ''Failed to fetch challenges'')))"



text \<open>
  Every challenge stored in the agent memory carries the challenger's duelist as its
  \<^verbatim>\<open>duelist_id\<close>.
\<close>

definition stored_as_a :: "PistolsState \<Rightarrow> bool" where
  "stored_as_a st = list_all (\<lambda>c. duelist_id c = duelist_id_a c) (activeChallenges st)"


section \<open>Address comparisons of analyze_duel_history and get_available_duelists\<close>

text \<open>
  The entry that \<^verbatim>\<open>analyze_duel_history\<close> puts into \<^verbatim>\<open>duelMap\<close> for a fetched
  challenge: \<^verbatim>\<open>c.address_a === playerAddress\<close> compares the address as fetched with the
  normalized address of the call. \<^verbatim>\<open>new Map\<close> keeps the last entry of a duel id.
\<close>

record duel_info =
  isPlayerA :: bool
  result :: string

definition duel_info_of :: "string \<Rightarrow> ChallengeData \<Rightarrow> duel_info" where
  "duel_info_of normalizedPlayerAddress c =
     \<lparr>isPlayerA = (address_a c = normalizedPlayerAddress),
      result =
        (if state c = ''Draw'' then ''draw''
         else if winner c = Some (if address_a c = normalizedPlayerAddress
                                  then duelist_id_a c else duelist_id_b c)
         then ''win'' else ''loss'')\<rparr>"

definition duelMap :: "string \<Rightarrow> ChallengeData list \<Rightarrow> (string \<rightharpoonup> duel_info)" where
  "duelMap callPlayerAddress ourChallenges =
     map_of (rev (map (\<lambda>c. (duel_id c,
                              duel_info_of (normalizeStarknetAddress callPlayerAddress) c))
                      ourChallenges))"

text \<open>
  The other players of \<^verbatim>\<open>get_available_duelists\<close>: every fetched player address is
  normalized before it is compared with the normalized address of the agent.
\<close>

definition playerAddresses :: "string \<Rightarrow> string list \<Rightarrow> string list" where
  "playerAddresses ourAddressInput fetched =
     (let ourAddress = normalizeStarknetAddress ourAddressInput
      in filter (\<lambda>address. address \<noteq> ourAddress) (map normalizeStarknetAddress fetched))"

section \<open>Concrete inputs\<close>

text \<open>
  A stand-in SDK for evaluating the handlers on concrete inputs: a toy hash (the sum of
  the salt and the moves), hexadecimal printing, and \<^verbatim>\<open>0x0\<close> for a missing number. Every
  general theorem below holds for all SDK functions.
\<close>

definition hex_digit :: "nat \<Rightarrow> char" where
  "hex_digit n = ''0123456789abcdef'' ! n"

fun hex_digits :: "nat \<Rightarrow> string" where
  "hex_digits n =
     (if n < 16 then [hex_digit n] else hex_digits (n div 16) @ [hex_digit (n mod 16)])"

declare hex_digits.simps [simp del]

definition test_sdk :: sdk where
  "test_sdk = \<lparr>make_moves_hash = (\<lambda>s ms. s + sum_list ms),
               bigintToHex = (\<lambda>n. ''0x'' @ hex_digits (nat n)),
               bigintToHex_undefined = Inr ''0x0'',
               game_contract = ''0xgame'', duel_contract = ''0xduel''\<rparr>"

definition chain_confirms :: "write_call \<Rightarrow> write_response" where
  "chain_confirms c = Returns (Some [[''0x1'']])"

definition chain_no_events :: "write_call \<Rightarrow> write_response" where
  "chain_no_events c = Returns (Some [])"

definition chain_throws :: "write_call \<Rightarrow> write_response" where
  "chain_throws c = Throws ''transaction reverted''"

definition empty_state :: PistolsState where
  "empty_state = \<lparr>goal = ''play'', tasks = [], currentTask = None,
                  playerAddress = ''0xabc'', duelistId = [], activeChallenge = [],
                  activeChallenges = [], challengeState = [],
                  isRegistered = False, starterPackClaimed = False,
                  committedMoves = Map.empty\<rparr>"

definition first_secret :: CommittedMoves where
  "first_secret = \<lparr>salt = 5, moves = [3, 7, 1, 2], hash = 18\<rparr>"

definition committed_world :: world where
  "committed_world =
     \<lparr>mem = empty_state\<lparr>committedMoves := [''42'' \<mapsto> first_secret]\<rparr>, submitted = []\<rparr>"

definition fresh_world :: world where
  "fresh_world = \<lparr>mem = empty_state, submitted = []\<rparr>"

definition busy_challenge :: Challenge where
  "busy_challenge =
     \<lparr>duel_id = ''41'', table_id = ''0x1'', premise = ''1'', quote = ''ha'',
      address_a = ''0xdef'', address_b = ''0xabc'', duelist_id_a = ''3'',
      duelist_id_b = ''7'', state = InProgress, winner = None,
      timestamps = \<lparr>start = 100, end_time = None\<rparr>, duelist_id = ''3''\<rparr>"

definition busy_world :: world where
  "busy_world = \<lparr>mem = empty_state\<lparr>activeChallenges := [busy_challenge]\<rparr>, submitted = []\<rparr>"

definition node_as_a :: "string \<Rightarrow> string \<Rightarrow> int \<Rightarrow> ChallengeData" where
  "node_as_a k st t =
     \<lparr>duel_id = k, table_id = ''0x1'', premise = ''1'', quote = ''ha'',
      address_a = ''0xabc'', address_b = ''0xdef'', duelist_id_a = ''10'',
      duelist_id_b = ''20'', state = st, winner = None,
      timestamps = \<lparr>start = t, end_time = None\<rparr>\<rparr>"

definition node_as_b :: "string \<Rightarrow> string \<Rightarrow> int \<Rightarrow> ChallengeData" where
  "node_as_b k st t =
     \<lparr>duel_id = k, table_id = ''0x1'', premise = ''1'', quote = ''ha'',
      address_a = ''0xdef'', address_b = ''0xabc'', duelist_id_a = ''30'',
      duelist_id_b = ''40'', state = st, winner = None,
      timestamps = \<lparr>start = t, end_time = None\<rparr>\<rparr>"

definition test_edges_a :: "ChallengeData list" where
  "test_edges_a = [node_as_a ''1'' Awaiting 5, node_as_a ''2'' InProgress 5]"

definition test_edges_b :: "ChallengeData list" where
  "test_edges_b = [node_as_b ''3'' Resolved 7, node_as_b ''4'' InProgress 9]"

definition test_api :: "string \<Rightarrow> ChallengesResponse api_result" where
  "test_api a =
     (if a = ''0xabc''
      then ApiReturns \<lparr>addressAChallenges = Some test_edges_a,
                        addressBChallenges = Some test_edges_b\<rparr>
      else ApiReturns \<lparr>addressAChallenges = Some [], addressBChallenges = Some []\<rparr>)"

definition padded_node :: ChallengeData where
  "padded_node =
     \<lparr>duel_id = ''9'', table_id = ''0x1'', premise = ''1'', quote = ''ha'',
      address_a = ''0x0abc'', address_b = ''0xdef'', duelist_id_a = ''10'',
      duelist_id_b = ''20'', state = Resolved, winner = Some ''10'',
      timestamps = \<lparr>start = 5, end_time = Some 8\<rparr>\<rparr>"

section \<open>Theorems\<close>

lemma commit_moves_world:
  "fst (commit_moves e chain s d k mv w) =
     (let c = commit_call e d k (make_moves_hash e s mv) in
      if has_events (chain c) then
        \<lparr>mem = (mem w)\<lparr>activeChallenge := k, duelistId := d,
                committedMoves := (committedMoves (mem w))(k \<mapsto>
                   \<lparr>salt = s, moves = mv, hash = make_moves_hash e s mv\<rparr>)\<rparr>,
         submitted = submitted w @ [(c, mem w)]\<rparr>
      else \<lparr>mem = mem w, submitted = submitted w @ [(c, mem w)]\<rparr>)"
  by (cases "chain (commit_call e d k (make_moves_hash e s mv))")
     (auto simp: commit_moves_def starknetChain_write_def Let_def has_events_def
           split: option.splits)

text \<open>
  C1 (as amended). A second \<^verbatim>\<open>commit_moves\<close> for a duel id leaves the store as it was
  exactly when the write throws or returns no event; when the write returns at least one
  event, the entry of that duel id is replaced by the salt, moves and hash of this call,
  whatever was stored before. The entries of the other duel ids are kept in both cases.
\<close>

theorem commit_moves_store:
  "committedMoves (mem (fst (commit_moves e chain s d k mv w))) =
     (if has_events (chain (commit_call e d k (make_moves_hash e s mv)))
      then (committedMoves (mem w))(k \<mapsto>
              \<lparr>salt = s, moves = mv, hash = make_moves_hash e s mv\<rparr>)
      else committedMoves (mem w))"
  by (simp add: commit_moves_world Let_def)

text \<open>
  The claim as stated fails: with a secret stored for duel 42, a second commit whose write
  is confirmed replaces it.
\<close>

theorem commit_moves_overwrites_counterexample:
  "committedMoves (mem committed_world) ''42'' = Some first_secret \<and>
   committedMoves (mem (fst (commit_moves test_sdk chain_confirms 9 ''7'' ''42'' [1, 2, 3, 4]
      committed_world))) ''42'' = Some \<lparr>salt = 9, moves = [1, 2, 3, 4], hash = 19\<rparr> \<and>
   \<lparr>salt = 9, moves = [1, 2, 3, 4], hash = 19\<rparr> \<noteq> first_secret"
  by (simp add: commit_moves_world Let_def committed_world_def first_secret_def
        test_sdk_def chain_confirms_def has_events_def)

text \<open>
  C2 (as amended). In every execution of \<^verbatim>\<open>commit_moves\<close> exactly one external write
  is submitted, and at the moment of its submission the agent memory is still the memory
  the handler was entered with: nothing of this call has been stored yet. The salt, moves
  and hash are stored afterwards, and only when the write returned at least one event;
  when it throws or returns no event, the hash has been submitted and the memory is left as
  it was.
\<close>

theorem commit_moves_submits_before_storing:
  "map snd (drop (length (submitted w)) (submitted (fst (commit_moves e chain s d k mv w))))
     = [mem w] \<and>
   (if has_events (chain (commit_call e d k (make_moves_hash e s mv)))
    then committedMoves (mem (fst (commit_moves e chain s d k mv w))) k =
           Some \<lparr>salt = s, moves = mv, hash = make_moves_hash e s mv\<rparr>
    else mem (fst (commit_moves e chain s d k mv w)) = mem w)"
  by (simp add: commit_moves_world Let_def)

text \<open>
  The claim as stated fails: from an empty store, the memory logged at the submission of
  the commit write has no entry for the duel, and when the write returns no event the
  hash has been submitted and no secret is ever stored.
\<close>

theorem commit_moves_late_store_counterexample:
  "submitted (fst (commit_moves test_sdk chain_confirms 5 ''7'' ''42'' [3, 7, 1, 2] fresh_world))
     = [(commit_call test_sdk ''7'' ''42'' 18, empty_state)] \<and>
   committedMoves empty_state ''42'' = None \<and>
   submitted (fst (commit_moves test_sdk chain_no_events 5 ''7'' ''42'' [3, 7, 1, 2] fresh_world))
     = [(commit_call test_sdk ''7'' ''42'' 18, empty_state)] \<and>
   committedMoves (mem (fst (commit_moves test_sdk chain_no_events 5 ''7'' ''42'' [3, 7, 1, 2]
      fresh_world))) ''42'' = None"
  by (simp add: commit_moves_world Let_def fresh_world_def empty_state_def
        test_sdk_def chain_confirms_def chain_no_events_def has_events_def)

lemma commit_moves_result:
  "snd (commit_moves e chain s d k mv w) =
     (case chain (commit_call e d k (make_moves_hash e s mv)) of
        Throws err \<Rightarrow> Failure err ''Failed to commit moves''
      | Returns ev \<Rightarrow>
          if has_events (Returns ev) then
            Success \<lparr>commit_message = ''Moves successfully committed'',
                     commit_salt = bigintToHex e s,
                     commit_moves_shown = mv,
                     commit_hash = bigintToHex e (make_moves_hash e s mv),
                     commit_transaction = Returns ev\<rparr>
          else Failure ''Commit transaction did not emit events'' ''Failed to commit moves'')"
  by (cases "chain (commit_call e d k (make_moves_hash e s mv))")
     (auto simp: commit_moves_def starknetChain_write_def Let_def)

text \<open>
  C3 (as amended). \<^verbatim>\<open>commit_moves\<close> checks nothing about the move values: for every
  list of numbers, valid or not, it submits the commit write for the hash of exactly that
  list, and the action succeeds exactly when the write returns at least one event. The
  only failures are those of the write.
\<close>

theorem commit_moves_submits_any_moves:
  "map fst (drop (length (submitted w)) (submitted (fst (commit_moves e chain s d k mv w))))
     = [commit_call e d k (make_moves_hash e s mv)] \<and>
   is_success (snd (commit_moves e chain s d k mv w)) =
     has_events (chain (commit_call e d k (make_moves_hash e s mv)))"
  by (cases "chain (commit_call e d k (make_moves_hash e s mv))")
     (simp_all add: commit_moves_world commit_moves_result Let_def has_events_def)

text \<open>
  The claim as stated fails: a firing step and a dodge step that are both 11, and an empty
  move list, are submitted and the action succeeds.
\<close>

theorem commit_moves_invalid_moves_counterexample:
  "\<not> spec_valid_moves [11, 11, 1, 2] \<and>
   is_success (snd (commit_moves test_sdk chain_confirms 5 ''7'' ''42'' [11, 11, 1, 2] fresh_world)) \<and>
   map fst (submitted (fst (commit_moves test_sdk chain_confirms 5 ''7'' ''42'' [11, 11, 1, 2]
      fresh_world))) = [commit_call test_sdk ''7'' ''42'' 30] \<and>
   \<not> spec_valid_moves [] \<and>
   is_success (snd (commit_moves test_sdk chain_confirms 5 ''7'' ''42'' [] fresh_world))"
  by (simp add: commit_moves_world commit_moves_result Let_def fresh_world_def
        test_sdk_def chain_confirms_def has_events_def spec_valid_moves_def)

lemma accept_challenge_world:
  "fst (accept_challenge e chain d c w) =
     (case chain (reply_duel_call e d c) of
        Throws err \<Rightarrow> \<lparr>mem = mem w, submitted = submitted w @ [(reply_duel_call e d c, mem w)]\<rparr>
      | Returns ev \<Rightarrow>
          \<lparr>mem = (mem w)\<lparr>activeChallenge := c, duelistId := d, challengeState := InProgress,
                  activeChallenges :=
                    map (\<lambda>x. if duel_id x = c then x\<lparr>state := InProgress, duelist_id_b := d\<rparr>
                             else x) (activeChallenges (mem w))\<rparr>,
           submitted = submitted w @ [(reply_duel_call e d c, mem w)]\<rparr>)"
  by (cases "chain (reply_duel_call e d c)")
     (auto simp: accept_challenge_def starknetChain_write_def Let_def)

lemma accept_challenge_result:
  "snd (accept_challenge e chain d c w) =
     (case chain (reply_duel_call e d c) of
        Throws err \<Rightarrow> Failure err ''Failed to accept challenge''
      | Returns ev \<Rightarrow> Success \<lparr>accept_message = ''Challenge successfully accepted'',
                                accept_transaction = Returns ev\<rparr>)"
  by (cases "chain (reply_duel_call e d c)")
     (auto simp: accept_challenge_def starknetChain_write_def Let_def)

text \<open>
  C4 (as amended). \<^verbatim>\<open>accept_challenge\<close> checks no guard: for every duelist, every
  challenge id and every agent memory it submits the \<^verbatim>\<open>reply_duel\<close> write, before any
  change to the agent memory, and it succeeds exactly when the write does not throw. The
  expiry of the challenge and the engagement of the duelist are left to the contract.
\<close>

theorem accept_challenge_submits_unguarded:
  "submitted (fst (accept_challenge e chain d c w)) =
     submitted w @ [(reply_duel_call e d c, mem w)] \<and>
   is_success (snd (accept_challenge e chain d c w)) =
     (case chain (reply_duel_call e d c) of Throws err \<Rightarrow> False | Returns ev \<Rightarrow> True)"
  by (cases "chain (reply_duel_call e d c)")
     (simp_all add: accept_challenge_world accept_challenge_result)

text \<open>
  The claim as stated fails: duelist 7 is engaged in duel 41, which is in progress, and
  accepting duel 42 with duelist 7 submits the reply and succeeds.
\<close>

theorem accept_challenge_busy_duelist_counterexample:
  "''7'' \<in> busyDuelists (activeChallenges (mem busy_world)) \<and>
   submitted (fst (accept_challenge test_sdk chain_confirms ''7'' ''42'' busy_world)) =
     [(reply_duel_call test_sdk ''7'' ''42'', mem busy_world)] \<and>
   is_success (snd (accept_challenge test_sdk chain_confirms ''7'' ''42'' busy_world))"
  by (simp add: accept_challenge_world accept_challenge_result busy_world_def
        busyDuelists_def busy_challenge_def chain_confirms_def)

lemma reveal_moves_absent_key:
  assumes "committedMoves (mem w) k = None" and "k \<notin> set Object_prototype_names"
  shows "reveal_moves e chain d k w =
           (w, Failure ''No committed moves found for this duel'' ''Failed to reveal moves'')"
  using assms by (simp add: reveal_moves_def get_property_def)

lemma reveal_moves_absent_key_example:
  "reveal_moves test_sdk chain_confirms ''7'' ''42'' fresh_world =
     (fresh_world, Failure ''No committed moves found for this duel'' ''Failed to reveal moves'')"
  by (rule reveal_moves_absent_key)
     (simp_all add: fresh_world_def empty_state_def Object_prototype_names_def)

text \<open>
  C5 fails on the code. The guard of \<^verbatim>\<open>reveal_moves\<close> tests the value found under the
  duel id for truthiness, and for a duel id that is the name of a member inherited from
  \<^verbatim>\<open>Object.prototype\<close> the value found is that member. With an empty store and the duel
  id \<^verbatim>\<open>constructor\<close> the handler goes past the guard and submits a reveal write whose
  moves are \<^verbatim>\<open>undefined\<close>; the action then succeeds or fails as the write does, and never
  with the missing-secret failure. (For every other duel id with no entry the handler
  returns the missing-secret failure and leaves the world as it was:
  \<open>reveal_moves_absent_key\<close>.)
\<close>

theorem reveal_moves_inherited_key_passes_guard:
  "committedMoves (mem fresh_world) ''constructor'' = None \<and>
   map fst (submitted (fst (reveal_moves test_sdk chain_confirms ''7'' ''constructor''
      fresh_world))) = [inherited_reveal_call test_sdk ''7'' ''constructor'' ''0x0''] \<and>
   is_success (snd (reveal_moves test_sdk chain_confirms ''7'' ''constructor'' fresh_world)) \<and>
   reveal_moves_shown (payload (snd (reveal_moves test_sdk chain_confirms ''7'' ''constructor''
      fresh_world))) = None \<and>
   map fst (submitted (fst (reveal_moves test_sdk chain_no_events ''7'' ''constructor''
      fresh_world))) = [inherited_reveal_call test_sdk ''7'' ''constructor'' ''0x0''] \<and>
   snd (reveal_moves test_sdk chain_no_events ''7'' ''constructor'' fresh_world) =
     Failure ''Reveal transaction did not emit events'' ''Failed to reveal moves'' \<and>
   snd (reveal_moves test_sdk chain_throws ''7'' ''constructor'' fresh_world) =
     Failure ''transaction reverted'' ''Failed to reveal moves''"
  by (simp add: reveal_moves_def get_property_def Object_prototype_names_def
        starknetChain_write_def fresh_world_def empty_state_def test_sdk_def
        chain_confirms_def chain_no_events_def chain_throws_def has_events_def)

lemma reveal_moves_world:
  assumes "committedMoves (mem w) k = Some sm"
  shows "fst (reveal_moves e chain d k w) =
     (if has_events (chain (reveal_call e d k sm)) then
        \<lparr>mem = (mem w)\<lparr>committedMoves := (committedMoves (mem w))(k := None),
                activeChallenge := k, duelistId := d\<rparr>,
         submitted = submitted w @ [(reveal_call e d k sm, mem w)]\<rparr>
      else \<lparr>mem = mem w, submitted = submitted w @ [(reveal_call e d k sm, mem w)]\<rparr>)"
  using assms
  by (cases "chain (reveal_call e d k sm)")
     (auto simp: reveal_moves_def get_property_def starknetChain_write_def Let_def
           has_events_def split: option.splits)

lemma reveal_moves_result:
  assumes "committedMoves (mem w) k = Some sm"
  shows "snd (reveal_moves e chain d k w) =
     (case chain (reveal_call e d k sm) of
        Throws err \<Rightarrow> Failure err ''Failed to reveal moves''
      | Returns ev \<Rightarrow>
          if has_events (Returns ev) then
            Success \<lparr>reveal_message = ''Moves successfully revealed'',
                     reveal_salt = bigintToHex e (salt sm),
                     reveal_moves_shown = Some (moves sm),
                     reveal_transaction = Returns ev\<rparr>
          else Failure ''Reveal transaction did not emit events'' ''Failed to reveal moves'')"
  using assms
  by (cases "chain (reveal_call e d k sm)")
     (auto simp: reveal_moves_def get_property_def starknetChain_write_def Let_def)

text \<open>
  C6. With a secret stored for the duel id, \<^verbatim>\<open>reveal_moves\<close> submits the reveal while
  the secret is still in the store, and succeeds exactly when the write returned at least
  one event. On every failure (the write throws, or returns no event) the store is
  unchanged; on success the entry of the duel id, and only that entry, is deleted, and the
  result shows the stored salt and the stored moves.
\<close>

theorem reveal_moves_keeps_secret_until_confirmed:
  assumes "committedMoves (mem w) k = Some sm"
  shows "submitted (fst (reveal_moves e chain d k w)) =
           submitted w @ [(reveal_call e d k sm, mem w)] \<and>
         is_success (snd (reveal_moves e chain d k w)) =
           has_events (chain (reveal_call e d k sm)) \<and>
         (\<not> is_success (snd (reveal_moves e chain d k w)) \<longrightarrow>
            committedMoves (mem (fst (reveal_moves e chain d k w))) = committedMoves (mem w)) \<and>
         (is_success (snd (reveal_moves e chain d k w)) \<longrightarrow>
            committedMoves (mem (fst (reveal_moves e chain d k w))) =
              (committedMoves (mem w))(k := None) \<and>
            reveal_salt (payload (snd (reveal_moves e chain d k w))) = bigintToHex e (salt sm) \<and>
            reveal_moves_shown (payload (snd (reveal_moves e chain d k w))) =
              Some (moves sm))"
proof (cases "chain (reveal_call e d k sm)")
  case (Throws err)
  then show ?thesis
    by (simp add: reveal_moves_world [OF assms] reveal_moves_result [OF assms] has_events_def)
next
  case (Returns ev)
  then show ?thesis
    by (simp add: reveal_moves_world [OF assms] reveal_moves_result [OF assms])
qed

theorem reveal_moves_keeps_secret_until_confirmed_witness:
  "committedMoves (mem committed_world) ''42'' = Some first_secret \<and>
   committedMoves (mem (fst (reveal_moves test_sdk chain_confirms ''7'' ''42'' committed_world)))
     ''42'' = None \<and>
   reveal_salt (payload (snd (reveal_moves test_sdk chain_confirms ''7'' ''42'' committed_world)))
     = ''0x5'' \<and>
   reveal_moves_shown (payload (snd (reveal_moves test_sdk chain_confirms ''7'' ''42''
     committed_world))) = Some [3, 7, 1, 2] \<and>
   \<not> is_success (snd (reveal_moves test_sdk chain_no_events ''7'' ''42'' committed_world)) \<and>
   committedMoves (mem (fst (reveal_moves test_sdk chain_no_events ''7'' ''42'' committed_world)))
     ''42'' = Some first_secret \<and>
   \<not> is_success (snd (reveal_moves test_sdk chain_throws ''7'' ''42'' committed_world)) \<and>
   committedMoves (mem (fst (reveal_moves test_sdk chain_throws ''7'' ''42'' committed_world)))
     ''42'' = Some first_secret"
proof -
  have h: "committedMoves (mem committed_world) ''42'' = Some first_secret"
    by (simp add: committed_world_def)
  have ok: "has_events (chain_confirms (reveal_call test_sdk ''7'' ''42'' first_secret))"
    by (simp add: chain_confirms_def has_events_def)
  have no: "\<not> has_events (chain_no_events (reveal_call test_sdk ''7'' ''42'' first_secret))"
    by (simp add: chain_no_events_def has_events_def)
  have th: "\<not> has_events (chain_throws (reveal_call test_sdk ''7'' ''42'' first_secret))"
    by (simp add: chain_throws_def has_events_def)
  show ?thesis
    using h ok no th
      reveal_moves_keeps_secret_until_confirmed [OF h, of test_sdk chain_confirms "''7''"]
      reveal_moves_keeps_secret_until_confirmed [OF h, of test_sdk chain_no_events "''7''"]
      reveal_moves_keeps_secret_until_confirmed [OF h, of test_sdk chain_throws "''7''"]
    by (simp add: first_secret_def test_sdk_def hex_digits.simps hex_digit_def)
qed

lemmas state_names =
  InProgress_def Awaiting_def Resolved_def Draw_def Refused_def Withdrawn_def Expired_def
  Null_def














lemma test_fetch_active:
  "fetch_activeChallenges (payload (snd (fetch_challenges test_api ''0x0ABC'' fresh_world))) =
     [with_duelist_id (node_as_b ''4'' InProgress 9) ''40'',
      with_duelist_id (node_as_a ''2'' InProgress 5) ''10'',
      with_duelist_id (node_as_a ''1'' Awaiting 5) ''10'']"
  by (simp add: fetch_challenges_def Let_def normalizeStarknetAddress_def toLowerCase_char_def
        test_api_def test_edges_a_def test_edges_b_def node_as_a_def node_as_b_def
        with_duelist_id_def array_sort_def SortCompare_def compare_challenges_def
        statePriority_def or_zero_def state_names)


lemma fetch_challenges_cases:
  assumes "fetch_challenges queryPistolsAPI addr w = (w', Success r)"
  shows "(case fetch_activeChallenges r of
            [] \<Rightarrow> w' = w
          | currentChallenge # rest \<Rightarrow>
              activeChallenges (mem w') =
                map (\<lambda>challenge. challenge\<lparr>duelist_id := duelist_id_a challenge\<rparr>)
                    (fetch_activeChallenges r))"
  using assms
  by (auto simp: fetch_challenges_def Let_def
           split: api_result.splits option.splits list.splits)

text \<open>
  C10. After a successful \<^verbatim>\<open>fetch_challenges\<close> that found an active challenge, the
  stored list is the returned active list with every \<^verbatim>\<open>duelist_id\<close> overwritten by
  \<^verbatim>\<open>duelist_id_a\<close>, also for the challenges fetched as the challenged party, whose
  returned copy carries \<^verbatim>\<open>duelist_id_b\<close>. When no active challenge was found the world is
  left as it was. So every stored challenge has \<^verbatim>\<open>duelist_id = duelist_id_a\<close> after the
  call, provided an active challenge was found or the stored list had the property before
  (as the initial memory has, and as \<^verbatim>\<open>accept_challenge\<close> keeps).
\<close>

theorem fetch_challenges_stores_duelist_id_a:
  assumes "fetch_challenges queryPistolsAPI addr w = (w', Success r)"
  shows "(fetch_activeChallenges r \<noteq> [] \<longrightarrow>
            activeChallenges (mem w') =
              map (\<lambda>challenge. challenge\<lparr>duelist_id := duelist_id_a challenge\<rparr>)
                  (fetch_activeChallenges r)) \<and>
         (fetch_activeChallenges r = [] \<longrightarrow> w' = w) \<and>
         (fetch_activeChallenges r \<noteq> [] \<or> stored_as_a (mem w) \<longrightarrow>
            (\<forall>c \<in> set (activeChallenges (mem w')). duelist_id c = duelist_id_a c))"
proof (cases "fetch_activeChallenges r")
  case Nil
  then have "w' = w" using fetch_challenges_cases [OF assms] by simp
  with Nil show ?thesis by (simp add: stored_as_a_def list_all_iff)
next
  case (Cons currentChallenge rest)
  then have "activeChallenges (mem w') =
      map (\<lambda>challenge. challenge\<lparr>duelist_id := duelist_id_a challenge\<rparr>)
          (fetch_activeChallenges r)"
    using fetch_challenges_cases [OF assms] by simp
  with Cons show ?thesis by auto
qed

lemma stored_as_a_initial: "stored_as_a (st\<lparr>activeChallenges := []\<rparr>)"
  by (simp add: stored_as_a_def)

lemma stored_as_a_accept:
  assumes "stored_as_a (mem w)"
  shows "stored_as_a (mem (fst (accept_challenge e chain d c w)))"
  using assms
  by (cases "chain (reply_duel_call e d c)")
     (auto simp: accept_challenge_world stored_as_a_def list_all_iff)

lemma test_fetch_world:
  "activeChallenges (mem (fst (fetch_challenges test_api ''0x0ABC'' fresh_world))) =
     [with_duelist_id (node_as_b ''4'' InProgress 9) ''30'',
      with_duelist_id (node_as_a ''2'' InProgress 5) ''10'',
      with_duelist_id (node_as_a ''1'' Awaiting 5) ''10'']"
  by (simp add: fetch_challenges_def Let_def normalizeStarknetAddress_def toLowerCase_char_def
        test_api_def test_edges_a_def test_edges_b_def node_as_a_def node_as_b_def
        with_duelist_id_def array_sort_def SortCompare_def compare_challenges_def
        statePriority_def or_zero_def state_names fresh_world_def)

lemma test_fetch_success:
  "is_success (snd (fetch_challenges test_api ''0x0ABC'' fresh_world))"
  by (simp add: fetch_challenges_def Let_def normalizeStarknetAddress_def toLowerCase_char_def
        test_api_def)

theorem fetch_challenges_stores_duelist_id_a_witness:
  "fetch_activeChallenges (payload (snd (fetch_challenges test_api ''0x0ABC'' fresh_world))) =
     [with_duelist_id (node_as_b ''4'' InProgress 9) ''40'',
      with_duelist_id (node_as_a ''2'' InProgress 5) ''10'',
      with_duelist_id (node_as_a ''1'' Awaiting 5) ''10''] \<and>
   activeChallenges (mem (fst (fetch_challenges test_api ''0x0ABC'' fresh_world))) =
     [with_duelist_id (node_as_b ''4'' InProgress 9) ''30'',
      with_duelist_id (node_as_a ''2'' InProgress 5) ''10'',
      with_duelist_id (node_as_a ''1'' Awaiting 5) ''10''] \<and>
   list_all (\<lambda>c. duelist_id c = duelist_id_a c)
     (activeChallenges (mem (fst (fetch_challenges test_api ''0x0ABC'' fresh_world))))"
proof -
  obtain r where r: "snd (fetch_challenges test_api ''0x0ABC'' fresh_world) = Success r"
    using test_fetch_success by (cases "snd (fetch_challenges test_api ''0x0ABC'' fresh_world)") auto
  then have run: "fetch_challenges test_api ''0x0ABC'' fresh_world =
      (fst (fetch_challenges test_api ''0x0ABC'' fresh_world), Success r)"
    by (metis prod.collapse)
  have active: "fetch_activeChallenges r \<noteq> []"
    using test_fetch_active r by simp
  show ?thesis
    using active fetch_challenges_stores_duelist_id_a [OF run]
    by (simp add: test_fetch_active test_fetch_world list_all_iff)
qed

text \<open>
  C8 fails on the code. \<^verbatim>\<open>analyze_duel_history\<close> normalizes the address of the call but
  not the address of a fetched challenge before comparing them: for the player
  \<^verbatim>\<open>0x0ABC\<close> and a resolved challenge fetched with \<^verbatim>\<open>address_a = 0x0abc\<close> (the same
  address, won by the challenger's duelist) the player is not recognised as the challenger
  and the duel counts as a loss, while with \<^verbatim>\<open>address_a = 0xabc\<close> it is a win.
  \<^verbatim>\<open>get_available_duelists\<close> normalizes the fetched address and treats the two forms as
  equal.
\<close>

theorem analyze_duel_history_compares_raw_address:
  "normalizeStarknetAddress ''0x0ABC'' = ''0xabc'' \<and>
   normalizeStarknetAddress (address_a padded_node) = ''0xabc'' \<and>
   duelMap ''0x0ABC'' [padded_node] ''9'' = Some \<lparr>isPlayerA = False, result = ''loss''\<rparr> \<and>
   duelMap ''0x0ABC'' [padded_node\<lparr>address_a := ''0xabc''\<rparr>] ''9'' =
     Some \<lparr>isPlayerA = True, result = ''win''\<rparr> \<and>
   playerAddresses ''0x0ABC'' [address_a padded_node, ''0xDEF''] = [''0xdef'']"
  by (simp add: duelMap_def duel_info_of_def playerAddresses_def padded_node_def
        normalizeStarknetAddress_def toLowerCase_char_def Let_def Resolved_def)

end
